theory Spec2Isabelle
  imports Complex_Main
begin

section \<open>The pixi manifest schema (schema/model.py) and its validation\<close>

text \<open>
  The source file declares the manifest as a tree of pydantic classes. Each class is a
  list of fields (name, external alias, type, default); the validation itself is what
  pydantic (version 2: the source uses \<^verbatim>\<open>constr(pattern=...)\<close>) does with such a
  declaration. The declarations are embedded as data of type \<open>ty\<close>, one constant per
  class or type alias of the source, and validation as one function \<open>validate\<close> over
  that data, following pydantic's rules for models with \<^verbatim>\<open>extra = "forbid"\<close>, for
  nullable fields, for smart-mode unions, lists, dictionaries and constrained scalars.
\<close>

subsection \<open>Raw documents, validated values, violations\<close>

text \<open>
  A raw document is what a TOML/JSON reader hands over: None, booleans, integers,
  finite floats (the rational they denote), strings, lists and dictionaries with string
  keys, the latter in insertion order.
\<close>

datatype raw =
    RNone
  | RBool bool
  | RInt int
  | RFloat rat
  | RStr string
  | RList "raw list"
  | RDict "(string \<times> raw) list"

text \<open>
  A validated value: a model instance \<open>VModel cls fields\<close> holds the class name and the
  field values under their internal names, in declaration order.
\<close>

datatype val =
    VNone
  | VBool bool
  | VInt int
  | VFloat rat
  | VStr string
  | VUrl string
  | VList "val list"
  | VDict "(string \<times> val) list"
  | VModel string "(string \<times> val) list"

text \<open>The location of a violation: dictionary keys, list indices, union member tags.\<close>

datatype seg = Key string | Idx nat | Tag string

text \<open>pydantic's error types, as far as this schema can raise them.\<close>

datatype err_type =
    missing
  | extra_forbidden
  | model_type
  | dict_type
  | list_type
  | string_type
  | string_too_short
  | string_pattern_mismatch
  | int_type
  | int_parsing
  | int_from_float
  | float_type
  | float_parsing
  | greater_than
  | bool_type
  | bool_parsing
  | url_type
  | url_parsing
  | url_scheme

type_synonym violation = "seg list \<times> err_type"

text \<open>The five violation kinds of the specification, and the error types they cover.\<close>

datatype kind = MissingField | UnknownField | ConstraintViolation | ShapeMismatch | TypeMismatch

fun kind_of :: "err_type \<Rightarrow> kind" where
  "kind_of missing = MissingField"
| "kind_of extra_forbidden = UnknownField"
| "kind_of model_type = TypeMismatch"
| "kind_of dict_type = TypeMismatch"
| "kind_of list_type = TypeMismatch"
| "kind_of string_type = TypeMismatch"
| "kind_of int_type = TypeMismatch"
| "kind_of float_type = TypeMismatch"
| "kind_of bool_type = TypeMismatch"
| "kind_of url_type = TypeMismatch"
| "kind_of string_too_short = ConstraintViolation"
| "kind_of string_pattern_mismatch = ConstraintViolation"
| "kind_of int_parsing = ConstraintViolation"
| "kind_of int_from_float = ConstraintViolation"
| "kind_of float_parsing = ConstraintViolation"
| "kind_of greater_than = ConstraintViolation"
| "kind_of bool_parsing = ConstraintViolation"
| "kind_of url_parsing = ConstraintViolation"
| "kind_of url_scheme = ConstraintViolation"

subsection \<open>Regular expressions of the string constraints\<close>

text \<open>
  The two patterns of the source are kept as syntax trees and matched by derivatives.
  A character class is a list of items, possibly negated; \<open>CWord\<close> is \<^verbatim>\<open>\w\<close>
  on ASCII.
\<close>

datatype citem = CChar char | CRange char char | CWord

datatype regex =
    Empty
  | Eps
  | Class bool "citem list"
  | Seq regex regex
  | Alt regex regex
  | Star regex

definition backslash :: char where
  "backslash = CHR 0x5C"

definition is_word :: "char \<Rightarrow> bool" where
  "is_word c = (let n = (of_char c :: nat) in
     (48 \<le> n \<and> n \<le> 57) \<or> (65 \<le> n \<and> n \<le> 90) \<or> (97 \<le> n \<and> n \<le> 122) \<or> n = 95)"

fun citem_has :: "char \<Rightarrow> citem \<Rightarrow> bool" where
  "citem_has c (CChar d) = (c = d)"
| "citem_has c (CRange lo hi) =
     ((of_char lo :: nat) \<le> of_char c \<and> (of_char c :: nat) \<le> of_char hi)"
| "citem_has c CWord = is_word c"

definition class_has :: "bool \<Rightarrow> citem list \<Rightarrow> char \<Rightarrow> bool" where
  "class_has neg items c = (list_ex (citem_has c) items \<noteq> neg)"

fun nullable :: "regex \<Rightarrow> bool" where
  "nullable Empty = False"
| "nullable Eps = True"
| "nullable (Class neg items) = False"
| "nullable (Seq a b) = (nullable a \<and> nullable b)"
| "nullable (Alt a b) = (nullable a \<or> nullable b)"
| "nullable (Star a) = True"

fun deriv :: "char \<Rightarrow> regex \<Rightarrow> regex" where
  "deriv c Empty = Empty"
| "deriv c Eps = Empty"
| "deriv c (Class neg items) = (if class_has neg items c then Eps else Empty)"
| "deriv c (Seq a b) =
     (if nullable a then Alt (Seq (deriv c a) b) (deriv c b) else Seq (deriv c a) b)"
| "deriv c (Alt a b) = Alt (deriv c a) (deriv c b)"
| "deriv c (Star a) = Seq (deriv c a) (Star a)"

fun full_match :: "regex \<Rightarrow> string \<Rightarrow> bool" where
  "full_match r [] = nullable r"
| "full_match r (c # cs) = full_match (deriv c r) cs"

definition Lit :: "char \<Rightarrow> regex" where
  "Lit c = Class False [CChar c]"

definition Lits :: "string \<Rightarrow> regex" where
  "Lits s = foldr (\<lambda>c r. Seq (Lit c) r) s Eps"

definition Plus :: "regex \<Rightarrow> regex" where
  "Plus r = Seq r (Star r)"

definition Opt :: "regex \<Rightarrow> regex" where
  "Opt r = Alt r Eps"

definition AnyStar :: regex where
  "AnyStar = Star (Class True [])"

text \<open>
  A pattern is a regex with its two anchors. pydantic matches by search: without
  \<^verbatim>\<open>^\<close> the match may start anywhere, without \<^verbatim>\<open>$\<close> it may end anywhere.
\<close>

datatype pattern = Pattern bool regex bool

fun pattern_search :: "pattern \<Rightarrow> string \<Rightarrow> bool" where
  "pattern_search (Pattern anchored_start r anchored_end) s =
     full_match
       (Seq (if anchored_start then Eps else AnyStar)
            (Seq r (if anchored_end then Eps else AnyStar))) s"

subsection \<open>Conversions of lax mode\<close>

text \<open>
  In lax mode pydantic converts between the scalar kinds of a document. Strings are
  read as numbers when they are plain decimal literals (an optional sign, digits, for
  a float an optional fraction), and as booleans when they are one of pydantic's
  twelve words.
\<close>

definition is_digit :: "char \<Rightarrow> bool" where
  "is_digit c = (let n = (of_char c :: nat) in 48 \<le> n \<and> n \<le> 57)"

definition is_alpha :: "char \<Rightarrow> bool" where
  "is_alpha c = (let n = (of_char c :: nat) in (65 \<le> n \<and> n \<le> 90) \<or> (97 \<le> n \<and> n \<le> 122))"

definition to_lower :: "char \<Rightarrow> char" where
  "to_lower c = (let n = (of_char c :: nat) in if 65 \<le> n \<and> n \<le> 90 then char_of (n + 32) else c)"

definition digits_value :: "string \<Rightarrow> int" where
  "digits_value ds = foldl (\<lambda>a c. 10 * a + (int (of_char c) - 48)) 0 ds"

definition split_sign :: "string \<Rightarrow> int \<times> string" where
  "split_sign s = (case s of
       c # cs \<Rightarrow> if c = CHR ''-'' then (- 1, cs) else if c = CHR ''+'' then (1, cs) else (1, s)
     | [] \<Rightarrow> (1, s))"

definition str_as_int :: "string \<Rightarrow> int option" where
  "str_as_int s = (case split_sign s of (sg, ds) \<Rightarrow>
     if ds \<noteq> [] \<and> list_all is_digit ds then Some (sg * digits_value ds) else None)"

definition str_as_float :: "string \<Rightarrow> rat option" where
  "str_as_float s = (case split_sign s of (sg, body) \<Rightarrow>
     (let ip = takeWhile is_digit body; rest = dropWhile is_digit body in
      if ip = [] then None
      else (case rest of
          [] \<Rightarrow> Some (of_int (sg * digits_value ip))
        | c # fp \<Rightarrow>
            if c = CHR ''.'' \<and> list_all is_digit fp
            then Some (of_int sg * (of_int (digits_value ip)
                   + of_int (digits_value fp) / of_int (10 ^ length fp)))
            else None)))"

definition str_as_bool :: "string \<Rightarrow> bool option" where
  "str_as_bool s = (let w = map to_lower s in
     if w \<in> set [''1'', ''true'', ''t'', ''yes'', ''y'', ''on''] then Some True
     else if w \<in> set [''0'', ''false'', ''f'', ''no'', ''n'', ''off''] then Some False
     else None)"

definition is_integral :: "rat \<Rightarrow> bool" where
  "is_integral q = (snd (quotient_of q) = 1)"

subsection \<open>URLs\<close>

text \<open>
  \<^verbatim>\<open>AnyHttpUrl\<close> parses the string as a URL and then checks the scheme. Of the URL
  grammar the model keeps what decides the fields of this schema: surrounding blanks
  are dropped, a scheme (a letter, then letters, digits, \<^verbatim>\<open>+ - .\<close>) must be followed by
  a colon, and an http(s) URL needs a non-empty host. The URL value keeps the string.
\<close>

definition is_blank :: "char \<Rightarrow> bool" where
  "is_blank c = ((of_char c :: nat) \<le> 32)"

definition trim :: "string \<Rightarrow> string" where
  "trim s = rev (dropWhile is_blank (rev (dropWhile is_blank s)))"

definition is_scheme_char :: "char \<Rightarrow> bool" where
  "is_scheme_char c = (is_alpha c \<or> is_digit c \<or> c \<in> set ''+-.'')"

definition split_scheme :: "string \<Rightarrow> (string \<times> string) option" where
  "split_scheme s = (case s of
       [] \<Rightarrow> None
     | c # cs \<Rightarrow>
         if \<not> is_alpha c then None
         else (case dropWhile is_scheme_char s of
             [] \<Rightarrow> None
           | d # rest \<Rightarrow>
               if d = CHR '':'' then Some (map to_lower (takeWhile is_scheme_char s), rest)
               else None))"

definition is_slash :: "char \<Rightarrow> bool" where
  "is_slash c = (c = CHR ''/'' \<or> c = backslash)"

definition url_host :: "string \<Rightarrow> string" where
  "url_host rest =
     (let authority = takeWhile (\<lambda>c. \<not> is_slash c \<and> c \<noteq> CHR ''?'' \<and> c \<noteq> CHR ''#'')
                        (dropWhile is_slash rest);
          hostport = rev (takeWhile (\<lambda>c. c \<noteq> CHR ''@'') (rev authority))
      in takeWhile (\<lambda>c. c \<noteq> CHR '':'') hostport)"

definition parse_url :: "string list \<Rightarrow> string \<Rightarrow> err_type + string" where
  "parse_url allowed_schemes s =
     (case split_scheme (trim s) of
        None \<Rightarrow> Inl url_parsing
      | Some (scheme, rest) \<Rightarrow>
          if scheme \<in> set [''http'', ''https''] \<and> url_host rest = [] then Inl url_parsing
          else if scheme \<notin> set allowed_schemes then Inl url_scheme
          else Inr s)"


subsection \<open>The schema language\<close>

text \<open>
  The types a field can have in this schema. \<open>TStr min_length pattern\<close> is
  \<^verbatim>\<open>constr\<close>, \<open>TFloat gt\<close> a float with an optional strict lower bound,
  \<open>TUrl schemes\<close> a URL with its allowed schemes, \<open>TNullable t\<close> is
  \<^verbatim>\<open>t | None\<close>, \<open>TUnion\<close> a union of the other members, \<open>TModel cls fields\<close>
  a class deriving from \<^verbatim>\<open>StrictBaseModel\<close>. A field has its internal name, its
  alias (the name again where the source gives none), its type and its default, if any.
\<close>

datatype mode = Strict | Lax

datatype ty =
    TStr "nat option" "pattern option"
  | TInt
  | TFloat "rat option"
  | TBool
  | TUrl "string list"
  | TList ty
  | TDict ty ty
  | TUnion "ty list"
  | TNullable ty
  | TModel string "field list"
and field = Field (fname: string) (falias: string) (ftype: ty) (fdefault: "val option")

subsection \<open>Validation\<close>

text \<open>
  Scalars. A string field takes strings only, then checks the minimal length and the
  pattern. The other scalars depend on the mode: in strict mode an integer field takes
  integers, a float field floats and integers, a boolean field booleans; lax mode adds
  the conversions between booleans, integers, integral floats and strings. A URL field
  takes strings that parse as a URL of an allowed scheme.
\<close>

definition validate_str :: "nat option \<Rightarrow> pattern option \<Rightarrow> raw \<Rightarrow> violation list + val" where
  "validate_str min_length pat r = (case r of
       RStr s \<Rightarrow>
         if (case min_length of Some n \<Rightarrow> length s < n | None \<Rightarrow> False)
         then Inl [([], string_too_short)]
         else if (case pat of Some p \<Rightarrow> \<not> pattern_search p s | None \<Rightarrow> False)
         then Inl [([], string_pattern_mismatch)]
         else Inr (VStr s)
     | _ \<Rightarrow> Inl [([], string_type)])"

definition validate_int :: "mode \<Rightarrow> raw \<Rightarrow> violation list + val" where
  "validate_int m r = (case r of
       RInt i \<Rightarrow> Inr (VInt i)
     | RBool b \<Rightarrow> if m = Lax then Inr (VInt (if b then 1 else 0)) else Inl [([], int_type)]
     | RFloat q \<Rightarrow>
         if m = Lax then
           (if is_integral q then Inr (VInt (fst (quotient_of q))) else Inl [([], int_from_float)])
         else Inl [([], int_type)]
     | RStr s \<Rightarrow>
         if m = Lax then
           (case str_as_int s of Some i \<Rightarrow> Inr (VInt i) | None \<Rightarrow> Inl [([], int_parsing)])
         else Inl [([], int_type)]
     | _ \<Rightarrow> Inl [([], int_type)])"

definition check_gt :: "rat option \<Rightarrow> rat \<Rightarrow> violation list + val" where
  "check_gt gt q = (if (case gt of Some b \<Rightarrow> q \<le> b | None \<Rightarrow> False)
     then Inl [([], greater_than)] else Inr (VFloat q))"

definition validate_float :: "mode \<Rightarrow> rat option \<Rightarrow> raw \<Rightarrow> violation list + val" where
  "validate_float m gt r = (case r of
       RFloat q \<Rightarrow> check_gt gt q
     | RInt i \<Rightarrow> check_gt gt (of_int i)
     | RBool b \<Rightarrow> if m = Lax then check_gt gt (if b then 1 else 0) else Inl [([], float_type)]
     | RStr s \<Rightarrow>
         if m = Lax then
           (case str_as_float s of Some q \<Rightarrow> check_gt gt q | None \<Rightarrow> Inl [([], float_parsing)])
         else Inl [([], float_type)]
     | _ \<Rightarrow> Inl [([], float_type)])"

definition validate_bool :: "mode \<Rightarrow> raw \<Rightarrow> violation list + val" where
  "validate_bool m r = (case r of
       RBool b \<Rightarrow> Inr (VBool b)
     | RInt i \<Rightarrow>
         if m = Lax then
           (if i = 0 then Inr (VBool False) else if i = 1 then Inr (VBool True)
            else Inl [([], bool_parsing)])
         else Inl [([], bool_type)]
     | RFloat q \<Rightarrow>
         if m = Lax then
           (if q = 0 then Inr (VBool False) else if q = 1 then Inr (VBool True)
            else Inl [([], bool_parsing)])
         else Inl [([], bool_type)]
     | RStr s \<Rightarrow>
         if m = Lax then
           (case str_as_bool s of Some b \<Rightarrow> Inr (VBool b) | None \<Rightarrow> Inl [([], bool_parsing)])
         else Inl [([], bool_type)]
     | _ \<Rightarrow> Inl [([], bool_type)])"

definition validate_url :: "string list \<Rightarrow> raw \<Rightarrow> violation list + val" where
  "validate_url allowed r = (case r of
       RStr s \<Rightarrow> (case parse_url allowed s of Inl e \<Rightarrow> Inl [([], e)] | Inr u \<Rightarrow> Inr (VUrl u))
     | _ \<Rightarrow> Inl [([], url_type)])"

text \<open>
  Violations found inside a field, an item or a union member are reported under its
  key, index or label; the label of a union member is pydantic's name of its type.
\<close>

definition under :: "seg \<Rightarrow> violation list \<Rightarrow> violation list" where
  "under sg es = map (\<lambda>(p, e). (sg # p, e)) es"

fun type_label :: "ty \<Rightarrow> string" where
  "type_label (TStr mn pat) = (if mn = None \<and> pat = None then ''str'' else ''constrained-str'')"
| "type_label TInt = ''int''"
| "type_label (TFloat gt) = (if gt = None then ''float'' else ''constrained-float'')"
| "type_label TBool = ''bool''"
| "type_label (TUrl schemes) = ''url''"
| "type_label (TList t) = ''list['' @ type_label t @ '']''"
| "type_label (TDict kt vt) = ''dict['' @ type_label kt @ '','' @ type_label vt @ '']''"
| "type_label (TUnion ts) = ''union''"
| "type_label (TNullable t) = ''nullable['' @ type_label t @ '']''"
| "type_label (TModel cls fs) = cls"

text \<open>
  \<^verbatim>\<open>extra = "forbid"\<close>: one violation for each key of the input dictionary that is
  not the alias of a field.
\<close>

definition extra_errors :: "field list \<Rightarrow> (string \<times> raw) list \<Rightarrow> violation list" where
  "extra_errors fs d =
     map (\<lambda>k. ([Key k], extra_forbidden)) (filter (\<lambda>k. k \<notin> set (map falias fs)) (map fst d))"

text \<open>
  The arguments of the mutually recursive calls of the validator, and the two measures
  under which they decrease: the size of the type first, the size of the raw value second.
\<close>

type_synonym call =
  "((mode \<times> ty \<times> raw) + (mode \<times> ty \<times> nat \<times> raw list)
     + (mode \<times> ty \<times> ty \<times> (string \<times> raw) list))
   + ((mode \<times> field list \<times> (string \<times> raw) list)
     + (mode \<times> ty list \<times> raw) + (mode \<times> ty list \<times> raw))"

definition call_ty_size :: "call \<Rightarrow> nat" where
  "call_ty_size c = (case c of
       Inl (Inl (m, t, r)) \<Rightarrow> 2 * size t + 2
     | Inl (Inr (Inl (m, t, i, xs))) \<Rightarrow> 2 * size t + 2
     | Inl (Inr (Inr (m, kt, vt, kvs))) \<Rightarrow> 2 * size kt + 2 * size vt + 3
     | Inr (Inl (m, fs, d)) \<Rightarrow> 2 * size_list size fs + 2
     | Inr (Inr (Inl (m, ts, r))) \<Rightarrow> 2 * size_list size ts + 2
     | Inr (Inr (Inr (m, ts, r))) \<Rightarrow> 2 * size_list size ts + 2)"

definition call_raw_size :: "call \<Rightarrow> nat" where
  "call_raw_size c = (case c of
       Inl (Inl (m, t, r)) \<Rightarrow> size r
     | Inl (Inr (Inl (m, t, i, xs))) \<Rightarrow> size_list size xs
     | Inl (Inr (Inr (m, kt, vt, kvs))) \<Rightarrow> size_list (\<lambda>p. size (snd p)) kvs
     | _ \<Rightarrow> 0)"

text \<open>
  The validator. A list validates every item and a dictionary every key and value,
  collecting the violations of all of them. A class takes a dictionary, in lax mode
  only (strict mode wants an instance of the class, which a raw document does not
  hold): it validates every field in declaration order, looked up by its alias, takes
  the default, unvalidated, for a field that is not given, reports a field that is
  neither given nor defaulted as missing, and adds the violations for extra keys; it
  returns the instance only if there is no violation at all. A union is in smart mode:
  the first member that accepts the input in strict mode wins, else the first that
  accepts it in lax mode, else the violations of all members in lax mode are reported.
  No error type of pydantic is of the specification's kind \<open>ShapeMismatch\<close>: a
  union that fails reports what each member found.
\<close>

function (sequential) validate :: "mode \<Rightarrow> ty \<Rightarrow> raw \<Rightarrow> violation list + val"
and validate_items :: "mode \<Rightarrow> ty \<Rightarrow> nat \<Rightarrow> raw list \<Rightarrow> violation list \<times> val list"
and validate_entries ::
  "mode \<Rightarrow> ty \<Rightarrow> ty \<Rightarrow> (string \<times> raw) list \<Rightarrow> violation list \<times> (string \<times> val) list"
and validate_fields ::
  "mode \<Rightarrow> field list \<Rightarrow> (string \<times> raw) list \<Rightarrow> violation list \<times> (string \<times> val) list"
and union_first :: "mode \<Rightarrow> ty list \<Rightarrow> raw \<Rightarrow> val option"
and union_errors :: "mode \<Rightarrow> ty list \<Rightarrow> raw \<Rightarrow> violation list"
where
  "validate m (TStr mn pat) r = validate_str mn pat r"
| "validate m TInt r = validate_int m r"
| "validate m (TFloat gt) r = validate_float m gt r"
| "validate m TBool r = validate_bool m r"
| "validate m (TUrl schemes) r = validate_url schemes r"
| "validate m (TNullable t) r = (if r = RNone then Inr VNone else validate m t r)"
| "validate m (TList t) r = (case r of
       RList xs \<Rightarrow>
         (case validate_items m t 0 xs of (es, vs) \<Rightarrow> if es = [] then Inr (VList vs) else Inl es)
     | _ \<Rightarrow> Inl [([], list_type)])"
| "validate m (TDict kt vt) r = (case r of
       RDict kvs \<Rightarrow>
         (case validate_entries m kt vt kvs of (es, kvs') \<Rightarrow>
            if es = [] then Inr (VDict kvs') else Inl es)
     | _ \<Rightarrow> Inl [([], dict_type)])"
| "validate m (TModel cls fs) r = (case r of
       RDict d \<Rightarrow>
         if m = Strict then Inl [([], model_type)]
         else (case validate_fields m fs d of (es, fvs) \<Rightarrow>
            if es @ extra_errors fs d = [] then Inr (VModel cls fvs)
            else Inl (es @ extra_errors fs d))
     | _ \<Rightarrow> Inl [([], model_type)])"
| "validate m (TUnion ts) r = (case union_first Strict ts r of
       Some v \<Rightarrow> Inr v
     | None \<Rightarrow>
         if m = Strict then Inl (union_errors Strict ts r)
         else (case union_first Lax ts r of
             Some v \<Rightarrow> Inr v
           | None \<Rightarrow> Inl (union_errors Lax ts r)))"
| "validate_items m t i [] = ([], [])"
| "validate_items m t i (x # xs) =
     (case validate m t x of
        Inl e \<Rightarrow> (case validate_items m t (Suc i) xs of (es, vs) \<Rightarrow> (under (Idx i) e @ es, vs))
      | Inr v \<Rightarrow> (case validate_items m t (Suc i) xs of (es, vs) \<Rightarrow> (es, v # vs)))"
| "validate_entries m kt vt [] = ([], [])"
| "validate_entries m kt vt ((k, x) # kvs) =
     (case validate m kt (RStr k) of
        Inl ke \<Rightarrow>
          (case validate m vt x of
             Inl e \<Rightarrow> (case validate_entries m kt vt kvs of (es, vs) \<Rightarrow>
                 (under (Key k) (under (Tag ''[key]'') ke) @ under (Key k) e @ es, vs))
           | Inr v \<Rightarrow> (case validate_entries m kt vt kvs of (es, vs) \<Rightarrow>
                 (under (Key k) (under (Tag ''[key]'') ke) @ es, vs)))
      | Inr kv \<Rightarrow>
          (case validate m vt x of
             Inl e \<Rightarrow> (case validate_entries m kt vt kvs of (es, vs) \<Rightarrow> (under (Key k) e @ es, vs))
           | Inr v \<Rightarrow> (case validate_entries m kt vt kvs of (es, vs) \<Rightarrow> (es, (k, v) # vs))))"
| "validate_fields m [] d = ([], [])"
| "validate_fields m (f # fs) d =
     (case map_of d (falias f) of
        Some x \<Rightarrow>
          (case validate m (ftype f) x of
             Inl e \<Rightarrow> (case validate_fields m fs d of (es, vs) \<Rightarrow> (under (Key (falias f)) e @ es, vs))
           | Inr v \<Rightarrow> (case validate_fields m fs d of (es, vs) \<Rightarrow> (es, (fname f, v) # vs)))
      | None \<Rightarrow>
          (case fdefault f of
             Some v \<Rightarrow> (case validate_fields m fs d of (es, vs) \<Rightarrow> (es, (fname f, v) # vs))
           | None \<Rightarrow> (case validate_fields m fs d of (es, vs) \<Rightarrow> (([Key (falias f)], missing) # es, vs))))"
| "union_first m [] r = None"
| "union_first m (t # ts) r =
     (case validate m t r of Inr v \<Rightarrow> Some v | Inl _ \<Rightarrow> union_first m ts r)"
| "union_errors m [] r = []"
| "union_errors m (t # ts) r =
     (case validate m t r of Inl e \<Rightarrow> under (Tag (type_label t)) e | Inr _ \<Rightarrow> []) @ union_errors m ts r"

  by pat_completeness auto

termination
  apply (relation "measures [call_ty_size, call_raw_size]")
  apply (auto simp: call_ty_size_def call_raw_size_def)
  subgoal for f fs d x by (cases f) simp
  done

subsection \<open>The declarations of schema/model.py\<close>

text \<open>
  One constant per type alias and class of the source, in its order. \<open>opt\<close> is a field
  declared with \<^verbatim>\<open>Field(None, ...)\<close>, \<open>opt_alias\<close> the same with an
  \<^verbatim>\<open>alias\<close>, \<open>req\<close> a field without default. \<^verbatim>\<open>Glob\<close>,
  \<^verbatim>\<open>UnsignedInt\<close> and \<^verbatim>\<open>SchemaVersion\<close> are declared in the source and used
  by no class; they are left out. \<^verbatim>\<open>GitUrl\<close> is kept, used by no class either.
\<close>

definition opt :: "string \<Rightarrow> ty \<Rightarrow> field" where
  "opt n t = Field n n t (Some VNone)"

definition opt_alias :: "string \<Rightarrow> string \<Rightarrow> ty \<Rightarrow> field" where
  "opt_alias n a t = Field n a t (Some VNone)"

definition req :: "string \<Rightarrow> ty \<Rightarrow> field" where
  "req n t = Field n n t None"

definition NonEmptyStr :: ty where
  "NonEmptyStr = TStr (Some 1) None"

definition PathNoBackslash_pattern :: pattern where
  "PathNoBackslash_pattern = Pattern True (Plus (Class True [CChar backslash])) True"

definition PathNoBackslash :: ty where
  "PathNoBackslash = TStr None (Some PathNoBackslash_pattern)"

definition GitUrl_pattern :: pattern where
  "GitUrl_pattern = Pattern False
     (Seq (Alt (Alt (Lits ''git'') (Alt (Lits ''ssh'') (Seq (Lits ''http'') (Opt (Lit CHR ''s'')))))
               (Seq (Lits ''git@'') (Plus (Class False [CWord, CChar CHR ''.'']))))
          (Seq (Seq (Lit CHR '':'') (Opt (Lits ''//'')))
               (Plus (Class False [CWord, CChar CHR ''.'', CChar CHR ''@'', CChar CHR '':'',
                                   CChar CHR ''/'', CRange backslash CHR ''~'']))))
     False"

definition GitUrl :: ty where
  "GitUrl = TStr None (Some GitUrl_pattern)"

definition AnyHttpUrl :: ty where
  "AnyHttpUrl = TUrl [''http'', ''https'']"

definition PositiveFloat :: ty where
  "PositiveFloat = TFloat (Some 0)"

definition ChannelInlineTable :: ty where
  "ChannelInlineTable = TModel ''ChannelInlineTable''
     [req ''channel'' (TUnion [NonEmptyStr, AnyHttpUrl]),
      opt ''priority'' (TNullable TInt)]"

definition Channel :: ty where
  "Channel = TUnion [NonEmptyStr, ChannelInlineTable]"

definition Project :: ty where
  "Project = TModel ''Project''
     [req ''name'' NonEmptyStr,
      opt ''version'' (TNullable NonEmptyStr),
      opt ''description'' (TNullable NonEmptyStr),
      opt ''authors'' (TNullable (TList NonEmptyStr)),
      opt ''channels'' (TList Channel),
      req ''platforms'' (TList NonEmptyStr),
      opt ''license'' (TNullable NonEmptyStr),
      opt ''license_file'' (TNullable PathNoBackslash),
      opt ''readme'' (TNullable PathNoBackslash),
      opt ''homepage'' (TNullable AnyHttpUrl),
      opt ''repository'' (TNullable AnyHttpUrl),
      opt ''documentation'' (TNullable AnyHttpUrl)]"

definition MatchspecTable :: ty where
  "MatchspecTable = TModel ''MatchspecTable''
     [opt ''version'' (TNullable NonEmptyStr),
      opt ''build'' (TNullable NonEmptyStr),
      opt ''channel'' (TNullable NonEmptyStr)]"

definition MatchSpec :: ty where
  "MatchSpec = TUnion [NonEmptyStr, MatchspecTable]"

definition CondaPackageName :: ty where
  "CondaPackageName = NonEmptyStr"

definition PyPIRequirementTable :: ty where
  "PyPIRequirementTable = TModel ''PyPIRequirementTable''
     [opt ''version'' (TNullable NonEmptyStr),
      opt ''extras'' (TNullable (TList NonEmptyStr))]"

definition PyPIRequirement :: ty where
  "PyPIRequirement = TUnion [NonEmptyStr, PyPIRequirementTable]"

definition PyPIPackageName :: ty where
  "PyPIPackageName = NonEmptyStr"

definition Dependencies :: ty where
  "Dependencies = TNullable (TDict CondaPackageName MatchSpec)"

definition PyPIDependencies :: ty where
  "PyPIDependencies = TNullable (TDict PyPIPackageName PyPIRequirement)"

definition TaskName :: ty where
  "TaskName = NonEmptyStr"

definition TaskInlineTable :: ty where
  "TaskInlineTable = TModel ''TaskInlineTable''
     [opt ''cmd'' (TNullable (TUnion [TList NonEmptyStr, NonEmptyStr])),
      opt ''cwd'' (TNullable PathNoBackslash),
      opt ''depends_on'' (TNullable (TUnion [TList NonEmptyStr, NonEmptyStr]))]"

definition Tasks :: ty where
  "Tasks = TNullable (TDict TaskName (TUnion [TaskInlineTable, NonEmptyStr]))"

definition LibcFamily :: ty where
  "LibcFamily = TModel ''LibcFamily''
     [opt ''family'' (TNullable NonEmptyStr),
      opt ''version'' (TNullable (TUnion [TFloat None, NonEmptyStr]))]"

definition SystemRequirements :: ty where
  "SystemRequirements = TModel ''SystemRequirements''
     [opt ''linux'' (TNullable (TUnion [PositiveFloat, NonEmptyStr])),
      opt ''unix'' (TNullable (TUnion [TBool, NonEmptyStr])),
      opt ''libc'' (TNullable (TUnion [LibcFamily, TFloat None, NonEmptyStr])),
      opt ''cuda'' (TNullable (TUnion [TFloat None, NonEmptyStr])),
      opt ''archspec'' (TNullable NonEmptyStr),
      opt ''macos'' (TNullable (TUnion [PositiveFloat, NonEmptyStr]))]"

definition EnvironmentName :: ty where
  "EnvironmentName = NonEmptyStr"

definition FeatureName :: ty where
  "FeatureName = NonEmptyStr"

definition SolveGroupName :: ty where
  "SolveGroupName = NonEmptyStr"

definition Environment :: ty where
  "Environment = TModel ''Environment''
     [opt ''features'' (TNullable (TList FeatureName)),
      opt_alias ''solve_group'' ''solve-group'' (TNullable SolveGroupName)]"

definition Activation :: ty where
  "Activation = TModel ''Activation''
     [opt ''scripts'' (TNullable (TList NonEmptyStr))]"

definition TargetName :: ty where
  "TargetName = NonEmptyStr"

definition Target :: ty where
  "Target = TModel ''Target''
     [opt ''dependencies'' Dependencies,
      opt_alias ''host_dependencies'' ''host-dependencies'' Dependencies,
      opt_alias ''build_dependencies'' ''build-dependencies'' Dependencies,
      opt_alias ''pypi_dependencies'' ''pypi-dependencies'' PyPIDependencies,
      opt ''tasks'' Tasks,
      opt ''activation'' (TNullable Activation)]"

definition Feature :: ty where
  "Feature = TModel ''Feature''
     [opt ''channels'' (TNullable (TList Channel)),
      opt ''platforms'' (TNullable (TList NonEmptyStr)),
      opt ''dependencies'' Dependencies,
      opt_alias ''host_dependencies'' ''host-dependencies'' Dependencies,
      opt_alias ''build_dependencies'' ''build-dependencies'' Dependencies,
      opt_alias ''pypi_dependencies'' ''pypi-dependencies'' PyPIDependencies,
      opt ''tasks'' Tasks,
      opt ''activation'' (TNullable Activation),
      opt_alias ''system_requirements'' ''system-requirements'' (TNullable SystemRequirements),
      opt ''target'' (TNullable (TDict TargetName Target))]"

definition BaseManifest :: ty where
  "BaseManifest = TModel ''BaseManifest''
     [req ''project'' Project,
      opt ''dependencies'' Dependencies,
      opt_alias ''host_dependencies'' ''host-dependencies'' Dependencies,
      opt_alias ''build_dependencies'' ''build-dependencies'' Dependencies,
      opt_alias ''pypi_dependencies'' ''pypi-dependencies'' PyPIDependencies,
      opt ''tasks'' Tasks,
      opt_alias ''system_requirements'' ''system-requirements'' (TNullable SystemRequirements),
      opt ''environments'' (TNullable (TDict EnvironmentName (TUnion [Environment, TList FeatureName]))),
      opt ''feature'' (TNullable (TDict FeatureName Feature)),
      opt ''activation'' (TNullable Activation),
      opt ''target'' (TNullable (TDict TargetName Target))]"

text \<open>The twelve classes of the source.\<close>

definition entities :: "ty list" where
  "entities = [ChannelInlineTable, Project, MatchspecTable, PyPIRequirementTable,
     TaskInlineTable, LibcFamily, SystemRequirements, Environment, Activation, Target,
     Feature, BaseManifest]"

text \<open>
  The entry point: \<^verbatim>\<open>cls.model_validate(document)\<close>, which validates in lax mode.
\<close>

definition model_validate :: "ty \<Rightarrow> raw \<Rightarrow> violation list + val" where
  "model_validate cls doc = validate Lax cls doc"

subsection \<open>Reading the declarations\<close>

fun class_name :: "ty \<Rightarrow> string" where
  "class_name (TModel cls fs) = cls"
| "class_name _ = []"

fun fields_of :: "ty \<Rightarrow> field list" where
  "fields_of (TModel cls fs) = fs"
| "fields_of _ = []"

text \<open>The keys a class declares: its fields under their external spelling.\<close>

definition declared_keys :: "ty \<Rightarrow> string list" where
  "declared_keys E = map falias (fields_of E)"

text \<open>The fields whose external spelling differs from the internal name.\<close>

definition aliased_fields :: "ty \<Rightarrow> field list" where
  "aliased_fields E = filter (\<lambda>f. falias f \<noteq> fname f) (fields_of E)"

text \<open>The value of a field of a model instance, by its internal name.\<close>

fun field_value :: "val \<Rightarrow> string \<Rightarrow> val option" where
  "field_value (VModel cls fvs) n = map_of fvs n"
| "field_value _ n = None"

text \<open>Whether validation accepted the document.\<close>

definition accepted :: "violation list + val \<Rightarrow> bool" where
  "accepted res = (\<not> isl res)"

text \<open>
  A union needs a member: pydantic refuses to build a class with an empty union, and
  every union of the source has two or three.
\<close>

function no_empty_union :: "ty \<Rightarrow> bool" where
  "no_empty_union (TStr mn pat) = True"
| "no_empty_union TInt = True"
| "no_empty_union (TFloat gt) = True"
| "no_empty_union TBool = True"
| "no_empty_union (TUrl schemes) = True"
| "no_empty_union (TList t) = no_empty_union t"
| "no_empty_union (TDict kt vt) = (no_empty_union kt \<and> no_empty_union vt)"
| "no_empty_union (TUnion ts) = (ts \<noteq> [] \<and> list_all no_empty_union ts)"
| "no_empty_union (TNullable t) = no_empty_union t"
| "no_empty_union (TModel cls fs) = list_all (\<lambda>f. no_empty_union (ftype f)) fs"
  by pat_completeness auto
termination
  apply (relation "measure size")
  apply (auto simp: less_Suc_eq_le size_list_estimation')
  subgoal for fs f by (induction fs) (auto, cases f, simp)
  done


subsection \<open>Field-level problems of a document\<close>

text \<open>
  The problems a document has as an instance of a class, field by field: required
  fields it lacks, fields whose value is not valid, keys the class does not declare.
\<close>

definition missing_fields :: "field list \<Rightarrow> (string \<times> raw) list \<Rightarrow> field list" where
  "missing_fields fs d = filter (\<lambda>f. map_of d (falias f) = None \<and> fdefault f = None) fs"

definition invalid_fields :: "field list \<Rightarrow> (string \<times> raw) list \<Rightarrow> field list" where
  "invalid_fields fs d =
     filter (\<lambda>f. case map_of d (falias f) of
                  Some x \<Rightarrow> isl (validate Lax (ftype f) x) | None \<Rightarrow> False) fs"

definition unknown_keys :: "field list \<Rightarrow> (string \<times> raw) list \<Rightarrow> string list" where
  "unknown_keys fs d = filter (\<lambda>k. k \<notin> set (map falias fs)) (map fst d)"

definition problems :: "ty \<Rightarrow> (string \<times> raw) list \<Rightarrow> nat" where
  "problems E d = length (missing_fields (fields_of E) d)
     + length (invalid_fields (fields_of E) d) + length (unknown_keys (fields_of E) d)"

subsection \<open>Serialization\<close>

text \<open>
  Modelled from the spec: the source has no serializer; the specification speaks of
  the raw document form of a manifest value. Fields are written under their external
  spelling, the only one a raw document may use, and an absent field is left out, a
  raw document having no other way to say absent.
\<close>

definition alias_of :: "string \<Rightarrow> string \<Rightarrow> string" where
  "alias_of cls n = (case find (\<lambda>E. class_name E = cls) entities of
       Some E \<Rightarrow> (case find (\<lambda>f. fname f = n) (fields_of E) of
                    Some f \<Rightarrow> falias f | None \<Rightarrow> n)
     | None \<Rightarrow> n)"

fun serialize :: "val \<Rightarrow> raw" where
  "serialize VNone = RNone"
| "serialize (VBool b) = RBool b"
| "serialize (VInt i) = RInt i"
| "serialize (VFloat q) = RFloat q"
| "serialize (VStr s) = RStr s"
| "serialize (VUrl u) = RStr u"
| "serialize (VList vs) = RList (map serialize vs)"
| "serialize (VDict kvs) = RDict (map (\<lambda>p. (fst p, serialize (snd p))) kvs)"
| "serialize (VModel cls fvs) =
     RDict (map (\<lambda>p. (alias_of cls (fst p), serialize (snd p)))
              (filter (\<lambda>p. snd p \<noteq> VNone) fvs))"

subsection \<open>Notions of the round-trip proof\<close>

text \<open>
  A type round-trips (towards validation in mode \<open>m'\<close>) when every value that
  validation of the type can return is returned again for its serialized form.
\<close>

definition roundtrips :: "mode \<Rightarrow> ty \<Rightarrow> bool" where
  "roundtrips m' t = (\<forall>m r v. validate m t r = Inr v \<longrightarrow> validate m' t (serialize v) = Inr v)"






subsection \<open>A document that uses most of the schema\<close>



subsection \<open>The documents of the specification's scenarios\<close>

definition scenario1 :: raw where
  "scenario1 = RDict [(''project'', RDict
     [(''name'', RStr ''demo''),
      (''platforms'', RList [RStr ''linux-64'']),
      (''channels'', RList [RStr ''conda-forge''])])]"

definition scenario2 :: raw where
  "scenario2 = RDict [(''project'', RDict [(''platforms'', RList [RStr ''linux-64''])])]"

section \<open>Properties\<close>

lemmas field_defs = opt_def opt_alias_def req_def

lemmas scalar_defs = NonEmptyStr_def PathNoBackslash_def AnyHttpUrl_def PositiveFloat_def
  CondaPackageName_def PyPIPackageName_def TaskName_def EnvironmentName_def FeatureName_def
  SolveGroupName_def TargetName_def

lemmas entity_defs = ChannelInlineTable_def Channel_def Project_def MatchspecTable_def
  MatchSpec_def PyPIRequirementTable_def PyPIRequirement_def Dependencies_def
  PyPIDependencies_def TaskInlineTable_def Tasks_def LibcFamily_def SystemRequirements_def
  Environment_def Activation_def Target_def Feature_def BaseManifest_def

lemmas validator_defs = validate_str_def validate_int_def validate_float_def
  validate_bool_def validate_url_def check_gt_def extra_errors_def under_def

subsection \<open>Failed validations report at least one violation\<close>

lemma union_first_None:
  "union_first m ts r = None \<Longrightarrow> t \<in> set ts \<Longrightarrow> isl (validate m t r)"
  by (induction ts) (auto split: sum.splits)

lemma under_nonempty: "under sg es = [] \<longleftrightarrow> es = []"
  by (simp add: under_def)

lemma length_under: "length (under sg es) = length es"
  by (simp add: under_def)

lemma union_errors_nonempty:
  "\<forall>t\<in>set ts. \<forall>e. validate m t r = Inl e \<longrightarrow> e \<noteq> [] \<Longrightarrow>
   \<exists>t\<in>set ts. isl (validate m t r) \<Longrightarrow> union_errors m ts r \<noteq> []"
  by (induction ts) (auto simp: under_nonempty isl_def)

lemma validate_nonempty:
  "no_empty_union t \<Longrightarrow> validate m t r = Inl e \<Longrightarrow> e \<noteq> []"
  and "no_empty_union (ftype f) \<Longrightarrow> validate m (ftype f) r = Inl e \<Longrightarrow> e \<noteq> []"
proof (induction t and f arbitrary: m r e and m r e)
  case (TStr mn pat)
  then show ?case by (auto simp: validate_str_def split: raw.splits if_splits)
next
  case TInt
  then show ?case by (auto simp: validate_int_def split: raw.splits if_splits option.splits)
next
  case (TFloat gt)
  then show ?case
    by (auto simp: validate_float_def check_gt_def split: raw.splits if_splits option.splits)
next
  case TBool
  then show ?case by (auto simp: validate_bool_def split: raw.splits if_splits option.splits)
next
  case (TUrl schemes)
  then show ?case
    by (auto simp: validate_url_def split: raw.splits if_splits option.splits sum.splits)
next
  case (TList t)
  then show ?case by (auto split: raw.splits if_splits prod.splits)
next
  case (TDict kt vt)
  then show ?case by (auto split: raw.splits if_splits prod.splits)
next
  case (TUnion ts)
  from TUnion.prems(1) obtain t where t: "t \<in> set ts" by (cases ts) auto
  have members: "\<forall>t\<in>set ts. \<forall>e. validate m' t r = Inl e \<longrightarrow> e \<noteq> []" for m'
    using TUnion.IH TUnion.prems(1) by (auto simp: list_all_iff)
  have failing: "union_first m' ts r = None \<Longrightarrow> union_errors m' ts r \<noteq> []" for m'
    using union_first_None [of m' ts r t] t members [of m']
    by (intro union_errors_nonempty) auto
  from TUnion.prems(2) show ?case
    using failing [of Strict] failing [of Lax]
    by (cases m) (auto split: option.splits)
next
  case (TNullable t)
  then show ?case by (auto split: if_splits)
next
  case (TModel cls fs)
  then show ?case by (auto split: raw.splits if_splits prod.splits)
next
  case (Field n a t d)
  then show ?case by simp
qed

subsection \<open>Validation of a dictionary as a class\<close>

lemma entities_are_models:
  "E \<in> set entities \<Longrightarrow> \<exists>cls fs. E = TModel cls fs"
  by (auto simp: entities_def entity_defs)

lemma extra_error_member:
  "k \<in> fst ` set d \<Longrightarrow> k \<notin> set (map falias fs) \<Longrightarrow>
   ([Key k], extra_forbidden) \<in> set (extra_errors fs d)"
  by (auto simp: extra_errors_def)

lemma model_validate_dict:
  "model_validate (TModel cls fs) (RDict d) =
     (if fst (validate_fields Lax fs d) @ extra_errors fs d = []
      then Inr (VModel cls (snd (validate_fields Lax fs d)))
      else Inl (fst (validate_fields Lax fs d) @ extra_errors fs d))"
  by (simp add: model_validate_def split: prod.splits)

subsection \<open>Closed world\<close>

text \<open>
  Claim C1. Every class derives from \<^verbatim>\<open>StrictBaseModel\<close>, whose configuration
  forbids extra keys. For each of the twelve classes and every input dictionary with a
  key that is not among the class's declared keys (the fields under their external
  spelling), validation fails and the violations include an \<open>extra_forbidden\<close> at that
  key, which is of kind \<open>UnknownField\<close>.
\<close>

theorem closed_world:
  assumes "E \<in> set entities" and "k \<in> fst ` set d" and "k \<notin> set (declared_keys E)"
  shows "\<exists>es. model_validate E (RDict d) = Inl es
     \<and> ([Key k], extra_forbidden) \<in> set es \<and> kind_of extra_forbidden = UnknownField"
proof -
  from assms(1) obtain cls fs where E: "E = TModel cls fs"
    using entities_are_models by blast
  have "([Key k], extra_forbidden) \<in> set (extra_errors fs d)"
    using assms(2,3) E by (simp add: extra_error_member declared_keys_def)
  then show ?thesis unfolding E model_validate_dict by auto
qed

theorem closed_world_witness:
  "\<exists>es. model_validate Environment (RDict [(''solve_group'', RStr ''default'')]) = Inl es
     \<and> ([Key ''solve_group''], extra_forbidden) \<in> set es
     \<and> kind_of extra_forbidden = UnknownField"
  using closed_world [of Environment "''solve_group''" "[(''solve_group'', RStr ''default'')]"]
  by (simp add: entities_def Environment_def field_defs declared_keys_def)

subsection \<open>The scenarios of the specification\<close>

text \<open>
  Claim C5. The document \<^verbatim>\<open>{"project": {"platforms": ["linux-64"]}}\<close> is rejected
  with exactly one violation: \<open>missing\<close>, of kind \<open>MissingField\<close>, at the path
  project, name.
\<close>

theorem scenario2_missing_name:
  "model_validate BaseManifest scenario2 = Inl [([Key ''project'', Key ''name''], missing)]
   \<and> kind_of missing = MissingField"
  by (simp add: model_validate_def scenario2_def BaseManifest_def Project_def field_defs
      scalar_defs validator_defs)

text \<open>
  Claim C4. The source declares \<^verbatim>\<open>channels: list[Channel] = Field(None, ...)\<close>: the
  annotation has no \<^verbatim>\<open>| None\<close>, unlike every optional field of the file, yet the
  field has the default None, and pydantic does not validate defaults. A project with
  a name and platforms and no channels is therefore accepted, and its channels are
  None, a value the annotation excludes.
\<close>

theorem project_without_channels:
  "model_validate Project
     (RDict [(''name'', RStr ''demo''), (''platforms'', RList [RStr ''linux-64''])])
   = Inr (VModel ''Project''
       [(''name'', VStr ''demo''), (''version'', VNone), (''description'', VNone),
        (''authors'', VNone), (''channels'', VNone),
        (''platforms'', VList [VStr ''linux-64'']), (''license'', VNone),
        (''license_file'', VNone), (''readme'', VNone), (''homepage'', VNone),
        (''repository'', VNone), (''documentation'', VNone)])"
  by (simp add: model_validate_def Project_def field_defs scalar_defs validator_defs)

text \<open>
  The None that the default puts into channels is not a value the field takes from a
  document: given explicitly, it is rejected.
\<close>

lemma explicit_none_channels_rejected:
  "model_validate Project
     (RDict [(''name'', RStr ''demo''), (''platforms'', RList [RStr ''linux-64'']),
             (''channels'', RNone)])
   = Inl [([Key ''channels''], list_type)]"
  by (simp add: model_validate_def Project_def field_defs scalar_defs validator_defs)

subsection \<open>Aggregation\<close>

lemma entities_no_empty_union: "E \<in> set entities \<Longrightarrow> no_empty_union E"
  by (auto simp: entities_def entity_defs field_defs scalar_defs)

lemma validate_fields_count:
  "\<forall>f\<in>set fs. no_empty_union (ftype f) \<Longrightarrow>
   length (missing_fields fs d) + length (invalid_fields fs d)
     \<le> length (fst (validate_fields Lax fs d))"
proof (induction fs)
  case Nil
  then show ?case by (simp add: missing_fields_def invalid_fields_def)
next
  case (Cons f fs)
  then have IH: "length (missing_fields fs d) + length (invalid_fields fs d)
     \<le> length (fst (validate_fields Lax fs d))" by simp
  have ne: "validate Lax (ftype f) x = Inl e \<Longrightarrow> 1 \<le> length e" for x e
    using validate_nonempty(1) [of "ftype f" Lax x e] Cons.prems
    by (cases e) auto
  show ?case
  proof (cases "map_of d (falias f)")
    case None
    then show ?thesis using IH
      by (auto simp: missing_fields_def invalid_fields_def split: option.splits prod.splits)
  next
    case (Some x)
    then show ?thesis using IH ne [of x]
      by (auto simp: missing_fields_def invalid_fields_def length_under isl_def
          split: option.splits prod.splits sum.splits)
  qed
qed

lemma length_extra_errors: "length (extra_errors fs d) = length (unknown_keys fs d)"
  by (simp add: extra_errors_def unknown_keys_def)

text \<open>
  Claim C2. The field-level problems of a document as an instance of a class are its
  missing required fields, its fields with an invalid value and its undeclared keys.
  For each of the twelve classes, a document with N such problems (N at least 1, so
  also N at least 2) is rejected with at least N violations: no problem hides another.
  The result of a failed validation is the violation list alone, never a value.
\<close>

theorem violations_aggregate:
  assumes "E \<in> set entities" and "0 < problems E d"
  shows "\<exists>es. model_validate E (RDict d) = Inl es \<and> problems E d \<le> length es
     \<and> \<not> accepted (model_validate E (RDict d))"
proof -
  from assms(1) obtain cls fs where E: "E = TModel cls fs"
    using entities_are_models by blast
  have "no_empty_union E" using assms(1) by (rule entities_no_empty_union)
  then have "\<forall>f\<in>set fs. no_empty_union (ftype f)" by (simp add: E list_all_iff)
  then have "length (missing_fields fs d) + length (invalid_fields fs d)
     \<le> length (fst (validate_fields Lax fs d))" by (rule validate_fields_count)
  then have le: "problems E d \<le> length (fst (validate_fields Lax fs d) @ extra_errors fs d)"
    by (simp add: problems_def E length_extra_errors)
  with assms(2) have "fst (validate_fields Lax fs d) @ extra_errors fs d \<noteq> []"
    by (metis length_0_conv not_less)
  with le show ?thesis unfolding E model_validate_dict by (simp add: accepted_def)
qed

theorem violations_aggregate_witness:
  "\<exists>es. model_validate Project (RDict [(''bogus'', RInt 1), (''readme'', RStr [])]) = Inl es
     \<and> problems Project [(''bogus'', RInt 1), (''readme'', RStr [])] \<le> length es
     \<and> problems Project [(''bogus'', RInt 1), (''readme'', RStr [])] = 4
     \<and> \<not> accepted (model_validate Project (RDict [(''bogus'', RInt 1), (''readme'', RStr [])]))"
proof -
  have p: "problems Project [(''bogus'', RInt 1), (''readme'', RStr [])] = 4"
    by (simp add: problems_def missing_fields_def invalid_fields_def unknown_keys_def
        Project_def field_defs scalar_defs validator_defs PathNoBackslash_pattern_def Plus_def)
  show ?thesis
    using violations_aggregate [of Project "[(''bogus'', RInt 1), (''readme'', RStr [])]"] p
    by (simp add: entities_def)
qed

subsection \<open>Aliases\<close>

lemma map_of_append_other:
  "a \<noteq> k \<Longrightarrow> ([a \<mapsto> x] ++ map_of d) k = map_of d k"
  by (cases "map_of d k") (simp_all add: map_add_def)

lemma map_of_append_new:
  assumes "a \<notin> fst ` set d"
  shows "([a \<mapsto> x] ++ map_of d) a = Some x"
proof -
  have "map_of d a = None" using assms by (simp add: map_of_eq_None_iff)
  then show ?thesis by (simp add: map_add_def)
qed

lemma validate_fields_other_key:
  "a \<notin> falias ` set fs \<Longrightarrow> validate_fields m fs (d @ [(a, x)]) = validate_fields m fs d"
  by (induction fs)
     (auto simp: map_of_append_other split: option.splits sum.splits prod.splits)

lemma validate_fields_new_key:
  assumes "distinct (map falias fs)" and "distinct (map fname fs)" and "f \<in> set fs"
    and "falias f \<notin> fst ` set d" and "fst (validate_fields m fs d) = []"
    and "validate m (ftype f) x = Inr w"
  shows "fst (validate_fields m fs (d @ [(falias f, x)])) = []
     \<and> map_of (snd (validate_fields m fs (d @ [(falias f, x)]))) (fname f) = Some w"
  using assms
proof (induction fs)
  case Nil
  then show ?case by simp
next
  case (Cons g gs)
  show ?case
  proof (cases "g = f")
    case True
    with Cons.prems(1) have "falias f \<notin> falias ` set gs" by auto
    then have same: "validate_fields m gs (d @ [(falias f, x)]) = validate_fields m gs d"
      by (rule validate_fields_other_key)
    have none: "map_of d (falias f) = None"
      using Cons.prems(4) by (simp add: map_of_eq_None_iff)
    from Cons.prems(5) none True have "fst (validate_fields m gs d) = []"
      by (auto split: option.splits prod.splits)
    then show ?thesis
      using True same Cons.prems(4,6)
      by (auto simp: map_of_append_new split: prod.splits)
  next
    case False
    with Cons.prems have f: "f \<in> set gs" and a: "falias g \<noteq> falias f"
      and n: "fname g \<noteq> fname f" by auto
    from Cons.prems(5) have rest: "fst (validate_fields m gs d) = []"
      by (auto split: option.splits prod.splits sum.splits)
    have IH: "fst (validate_fields m gs (d @ [(falias f, x)])) = []
       \<and> map_of (snd (validate_fields m gs (d @ [(falias f, x)]))) (fname f) = Some w"
      using Cons.IH Cons.prems f rest by simp
    have lk: "([falias f \<mapsto> x] ++ map_of d) (falias g) = map_of d (falias g)"
      using a by (simp add: map_of_append_other)
    from Cons.prems(5) IH n show ?thesis
      by (auto simp: lk split: option.splits prod.splits sum.splits)
  qed
qed

lemma extra_errors_declared_key:
  "a \<in> falias ` set fs \<Longrightarrow> extra_errors fs (d @ [(a, x)]) = extra_errors fs d"
  by (simp add: extra_errors_def)

lemma entities_induct:
  assumes "E \<in> set entities"
    and "P ChannelInlineTable" and "P Project" and "P MatchspecTable"
    and "P PyPIRequirementTable" and "P TaskInlineTable" and "P LibcFamily"
    and "P SystemRequirements" and "P Environment" and "P Activation" and "P Target"
    and "P Feature" and "P BaseManifest"
  shows "P E"
  using assms unfolding entities_def by auto

lemma entities_distinct:
  "E \<in> set entities \<Longrightarrow>
   distinct (map falias (fields_of E)) \<and> distinct (map fname (fields_of E))"
  by (erule entities_induct) (simp_all add: entity_defs field_defs)

lemma aliased_name_undeclared:
  "E \<in> set entities \<Longrightarrow> \<forall>f\<in>set (aliased_fields E). fname f \<notin> set (declared_keys E)"
  by (erule entities_induct)
     (simp_all add: entity_defs field_defs aliased_fields_def declared_keys_def)

lemma aliased_names:
  "set (concat (map (\<lambda>E. map fname (aliased_fields E)) entities)) =
   {''host_dependencies'', ''build_dependencies'', ''pypi_dependencies'',
    ''system_requirements'', ''solve_group''}"
  by (simp add: entities_def entity_defs field_defs aliased_fields_def insert_commute)

text \<open>
  Claim C3. The aliased fields of the twelve classes are host_dependencies,
  build_dependencies, pypi_dependencies, system_requirements and solve_group. For
  each class and each of its aliased fields: a document that has the underscored
  internal name as a key is rejected with an \<open>extra_forbidden\<close> (kind
  \<open>UnknownField\<close>) at that key; and adding the hyphenated key, with a value valid
  for the field, to an accepted document that does not have it gives an accepted
  document, whose value has the validated field.
\<close>

theorem alias_spelling:
  assumes "E \<in> set entities" and "f \<in> set (aliased_fields E)"
  shows "(fname f \<in> fst ` set d \<longrightarrow>
            (\<exists>es. model_validate E (RDict d) = Inl es
               \<and> ([Key (fname f)], extra_forbidden) \<in> set es
               \<and> kind_of extra_forbidden = UnknownField))
     \<and> (accepted (model_validate E (RDict d)) \<and> falias f \<notin> fst ` set d
          \<and> validate Lax (ftype f) x = Inr w \<longrightarrow>
            (\<exists>v. model_validate E (RDict (d @ [(falias f, x)])) = Inr v
               \<and> field_value v (fname f) = Some w))
     \<and> set (concat (map (\<lambda>E. map fname (aliased_fields E)) entities)) =
         {''host_dependencies'', ''build_dependencies'', ''pypi_dependencies'',
          ''system_requirements'', ''solve_group''}"
proof -
  from assms(1) obtain cls fs where E: "E = TModel cls fs"
    using entities_are_models by blast
  have f: "f \<in> set fs" using assms(2) by (simp add: E aliased_fields_def)
  have dist: "distinct (map falias fs)" "distinct (map fname fs)"
    using entities_distinct [OF assms(1)] by (simp_all add: E)
  have undeclared: "fname f \<notin> set (map falias fs)"
    using aliased_name_undeclared [OF assms(1)] assms(2) by (simp add: E declared_keys_def)
  have rejected: "\<exists>es. model_validate E (RDict d) = Inl es
      \<and> ([Key (fname f)], extra_forbidden) \<in> set es
      \<and> kind_of extra_forbidden = UnknownField" if "fname f \<in> fst ` set d"
  proof -
    have "([Key (fname f)], extra_forbidden) \<in> set (extra_errors fs d)"
      using that undeclared by (rule extra_error_member)
    then show ?thesis unfolding E model_validate_dict by auto
  qed
  have taken: "\<exists>v. model_validate E (RDict (d @ [(falias f, x)])) = Inr v
      \<and> field_value v (fname f) = Some w"
    if ok: "accepted (model_validate E (RDict d))" and new: "falias f \<notin> fst ` set d"
      and val: "validate Lax (ftype f) x = Inr w"
  proof -
    from ok have none: "fst (validate_fields Lax fs d) = []" "extra_errors fs d = []"
      unfolding E model_validate_dict accepted_def by (auto split: if_splits)
    have "fst (validate_fields Lax fs (d @ [(falias f, x)])) = []
       \<and> map_of (snd (validate_fields Lax fs (d @ [(falias f, x)]))) (fname f) = Some w"
      using dist f new none(1) val by (rule validate_fields_new_key)
    moreover have "extra_errors fs (d @ [(falias f, x)]) = []"
      using extra_errors_declared_key [of "falias f" fs d x] f none(2) by simp
    ultimately show ?thesis unfolding E model_validate_dict by simp
  qed
  show ?thesis using rejected taken aliased_names by blast
qed

theorem alias_spelling_witness:
  "(\<exists>es. model_validate Target (RDict [(''host_dependencies'', RNone)]) = Inl es
       \<and> ([Key ''host_dependencies''], extra_forbidden) \<in> set es)
   \<and> (\<exists>v. model_validate Target (RDict [(''host-dependencies'', RDict [(''python'', RStr ''3.11'')])]) = Inr v
       \<and> field_value v ''host_dependencies'' = Some (VDict [(''python'', VStr ''3.11'')]))"
proof -
  let ?f = "opt_alias ''host_dependencies'' ''host-dependencies'' Dependencies"
  have E: "Target \<in> set entities" by (simp add: entities_def)
  have f: "?f \<in> set (aliased_fields Target)"
    by (simp add: aliased_fields_def Target_def field_defs)
  have ok: "accepted (model_validate Target (RDict []))"
    by (simp add: accepted_def model_validate_def Target_def field_defs validator_defs)
  have val: "validate Lax (ftype ?f) (RDict [(''python'', RStr ''3.11'')])
      = Inr (VDict [(''python'', VStr ''3.11'')])"
    by (simp add: field_defs Dependencies_def MatchSpec_def scalar_defs validator_defs)
  show ?thesis
    using alias_spelling [OF E f, of "[(''host_dependencies'', RNone)]"]
      alias_spelling [OF E f, of "[]" "RDict [(''python'', RStr ''3.11'')]"
        "VDict [(''python'', VStr ''3.11'')]"] ok val
    by (simp add: field_defs)
qed

subsection \<open>Absent fields\<close>

lemma validate_fields_default:
  assumes "distinct (map fname fs)" and "f \<in> set fs"
    and "falias f \<notin> fst ` set d" and "fdefault f = Some dv"
  shows "map_of (snd (validate_fields m fs d)) (fname f) = Some dv"
  using assms
proof (induction fs)
  case Nil
  then show ?case by simp
next
  case (Cons g gs)
  have none: "map_of d (falias f) = None"
    using Cons.prems(3) by (simp add: map_of_eq_None_iff)
  show ?case
  proof (cases "g = f")
    case True
    then show ?thesis using none Cons.prems(4) by (simp split: prod.splits)
  next
    case False
    with Cons.prems have "f \<in> set gs" and "fname g \<noteq> fname f" by auto
    then show ?thesis using Cons.IH Cons.prems
      by (auto split: option.splits sum.splits prod.splits)
  qed
qed

lemma entities_defaults:
  "E \<in> set entities \<Longrightarrow> \<forall>f\<in>set (fields_of E). fdefault f = None \<or> fdefault f = Some VNone"
  by (erule entities_induct) (simp_all add: entity_defs field_defs)

text \<open>
  Claim C8. For each of the twelve classes and each of its fields that has a default
  (the optional ones): when a document without the field's key is accepted, the field
  of the resulting value is None, which is neither the empty dictionary nor the empty
  list. The first scenario of the specification is accepted, and every field it does
  not give is None in the result.
\<close>

theorem omitted_optional_is_absent:
  assumes "E \<in> set entities" and "f \<in> set (fields_of E)" and "fdefault f \<noteq> None"
    and "falias f \<notin> fst ` set d" and "model_validate E (RDict d) = Inr v"
  shows "field_value v (fname f) = Some VNone \<and> VNone \<noteq> VDict [] \<and> VNone \<noteq> VList []
     \<and> model_validate BaseManifest scenario1 =
         Inr (VModel ''BaseManifest''
           [(''project'', VModel ''Project''
              [(''name'', VStr ''demo''), (''version'', VNone), (''description'', VNone),
               (''authors'', VNone), (''channels'', VList [VStr ''conda-forge'']),
               (''platforms'', VList [VStr ''linux-64'']), (''license'', VNone),
               (''license_file'', VNone), (''readme'', VNone), (''homepage'', VNone),
               (''repository'', VNone), (''documentation'', VNone)]),
            (''dependencies'', VNone), (''host_dependencies'', VNone),
            (''build_dependencies'', VNone), (''pypi_dependencies'', VNone),
            (''tasks'', VNone), (''system_requirements'', VNone),
            (''environments'', VNone), (''feature'', VNone),
            (''activation'', VNone), (''target'', VNone)])"
proof -
  from assms(1) obtain cls fs where E: "E = TModel cls fs"
    using entities_are_models by blast
  have f: "f \<in> set fs" using assms(2) by (simp add: E)
  have "distinct (map fname fs)" using entities_distinct [OF assms(1)] by (simp add: E)
  moreover have "fdefault f = Some VNone"
    using entities_defaults [OF assms(1)] assms(2,3) by auto
  ultimately have "map_of (snd (validate_fields Lax fs d)) (fname f) = Some VNone"
    using f assms(4) validate_fields_default by blast
  moreover from assms(5) have "v = VModel cls (snd (validate_fields Lax fs d))"
    unfolding E model_validate_dict by (simp split: if_splits)
  ultimately have "field_value v (fname f) = Some VNone" by simp
  moreover have "model_validate BaseManifest scenario1 =
         Inr (VModel ''BaseManifest''
           [(''project'', VModel ''Project''
              [(''name'', VStr ''demo''), (''version'', VNone), (''description'', VNone),
               (''authors'', VNone), (''channels'', VList [VStr ''conda-forge'']),
               (''platforms'', VList [VStr ''linux-64'']), (''license'', VNone),
               (''license_file'', VNone), (''readme'', VNone), (''homepage'', VNone),
               (''repository'', VNone), (''documentation'', VNone)]),
            (''dependencies'', VNone), (''host_dependencies'', VNone),
            (''build_dependencies'', VNone), (''pypi_dependencies'', VNone),
            (''tasks'', VNone), (''system_requirements'', VNone),
            (''environments'', VNone), (''feature'', VNone),
            (''activation'', VNone), (''target'', VNone)])"
    by (simp add: model_validate_def scenario1_def BaseManifest_def Project_def Channel_def
        field_defs scalar_defs validator_defs)
  ultimately show ?thesis by simp
qed

theorem omitted_optional_is_absent_witness:
  "field_value
     (VModel ''Activation'' [(''scripts'', VNone)]) ''scripts'' = Some VNone
   \<and> model_validate Activation (RDict []) = Inr (VModel ''Activation'' [(''scripts'', VNone)])"
proof -
  have v: "model_validate Activation (RDict []) = Inr (VModel ''Activation'' [(''scripts'', VNone)])"
    by (simp add: model_validate_def Activation_def field_defs validator_defs)
  have E: "Activation \<in> set entities" by (simp add: entities_def)
  have f: "opt ''scripts'' (TNullable (TList NonEmptyStr)) \<in> set (fields_of Activation)"
    by (simp add: Activation_def)
  show ?thesis
    using omitted_optional_is_absent [OF E f _ _ v] v by (simp add: field_defs)
qed

subsection \<open>The path pattern\<close>

lemma full_match_Empty: "full_match Empty s = False"
  by (induction s) simp_all

lemma full_match_Alt: "full_match (Alt a b) s = (full_match a s \<or> full_match b s)"
  by (induction s arbitrary: a b) simp_all

lemma full_match_Seq_Empty: "full_match (Seq Empty b) s = False"
  by (induction s) simp_all

lemma full_match_Seq_Eps: "full_match (Seq Eps b) s = full_match b s"
  by (cases s) (simp_all add: full_match_Alt full_match_Seq_Empty)

lemma full_match_Seq_Eps_right: "full_match (Seq a Eps) s = full_match a s"
  by (induction s arbitrary: a) (simp_all add: full_match_Alt full_match_Empty)

lemma full_match_Star_Class:
  "full_match (Star (Class neg items)) s = (\<forall>c\<in>set s. class_has neg items c)"
  by (induction s) (simp_all add: full_match_Seq_Eps full_match_Seq_Empty)

lemma full_match_Plus_Class:
  "full_match (Plus (Class neg items)) s = (s \<noteq> [] \<and> (\<forall>c\<in>set s. class_has neg items c))"
  by (cases s)
     (auto simp: Plus_def full_match_Seq_Eps full_match_Seq_Empty full_match_Star_Class)

lemma PathNoBackslash_search:
  "pattern_search PathNoBackslash_pattern s = (s \<noteq> [] \<and> backslash \<notin> set s)"
  by (auto simp: PathNoBackslash_pattern_def full_match_Seq_Eps full_match_Seq_Eps_right
      full_match_Plus_Class class_has_def)

text \<open>
  Claim C6, as amended. \<^verbatim>\<open>PathNoBackslash\<close> is an anchored pattern: one or more
  characters, none a backslash. The constraint accepts a string, unchanged,
  exactly when it is not empty and has no backslash; every other string is rejected
  with a \<open>string_pattern_mismatch\<close>, of kind \<open>ConstraintViolation\<close>. It is the
  type, made nullable, of the license_file and readme fields of Project and of the cwd
  field of TaskInlineTable.
\<close>

theorem path_without_backslash:
  "validate m PathNoBackslash (RStr s) =
     (if s \<noteq> [] \<and> backslash \<notin> set s then Inr (VStr s)
      else Inl [([], string_pattern_mismatch)])
   \<and> kind_of string_pattern_mismatch = ConstraintViolation
   \<and> map ftype (filter (\<lambda>f. fname f = ''license_file'' \<or> fname f = ''readme'')
         (fields_of Project)) = [TNullable PathNoBackslash, TNullable PathNoBackslash]
   \<and> map ftype (filter (\<lambda>f. fname f = ''cwd'') (fields_of TaskInlineTable))
       = [TNullable PathNoBackslash]"
  by (simp add: PathNoBackslash_def validate_str_def PathNoBackslash_search
      Project_def TaskInlineTable_def field_defs)

theorem path_without_backslash_witness:
  "validate Lax PathNoBackslash (RStr ''docs/README.md'') = Inr (VStr ''docs/README.md'')
   \<and> validate Lax PathNoBackslash (RStr [CHR ''a'', backslash, CHR ''b''])
       = Inl [([], string_pattern_mismatch)]"
  using path_without_backslash [of Lax "''docs/README.md''"]
    path_without_backslash [of Lax "[CHR ''a'', backslash, CHR ''b'']"]
  by (simp add: backslash_def)

text \<open>
  The claim as stated fails on the empty string, which has no backslash and is
  rejected: a project whose license_file is the empty string is not valid.
\<close>

theorem empty_path_rejected:
  "model_validate Project
     (RDict [(''name'', RStr ''demo''), (''platforms'', RList [RStr ''linux-64'']),
             (''license_file'', RStr [])])
   = Inl [([Key ''license_file''], string_pattern_mismatch)]
   \<and> backslash \<notin> set []"
  by (simp add: model_validate_def Project_def field_defs scalar_defs validator_defs
      PathNoBackslash_pattern_def Plus_def)

subsection \<open>System requirements\<close>

lemmas sysreq_simps = model_validate_def accepted_def SystemRequirements_def LibcFamily_def
  field_defs scalar_defs validator_defs

text \<open>
  Claim C7, as amended. Every field of SystemRequirements is optional: the empty
  document is accepted and leaves all six None. linux and macos are declared
  \<^verbatim>\<open>PositiveFloat | NonEmptyStr | None\<close>: they accept a float exactly when it is
  greater than 0, and a string exactly when it is not empty. libc and cuda accept
  every float, libc every table that is a valid LibcFamily, unix every boolean, and
  all six fields every non-empty string.
\<close>

theorem system_requirements_fields:
  "model_validate SystemRequirements (RDict []) =
     Inr (VModel ''SystemRequirements''
       [(''linux'', VNone), (''unix'', VNone), (''libc'', VNone), (''cuda'', VNone),
        (''archspec'', VNone), (''macos'', VNone)])
   \<and> accepted (model_validate SystemRequirements (RDict [(''linux'', RFloat q)])) = (0 < q)
   \<and> accepted (model_validate SystemRequirements (RDict [(''macos'', RFloat q)])) = (0 < q)
   \<and> accepted (model_validate SystemRequirements (RDict [(''libc'', RFloat q)]))
   \<and> accepted (model_validate SystemRequirements (RDict [(''cuda'', RFloat q)]))
   \<and> accepted (model_validate SystemRequirements (RDict [(''unix'', RBool b)]))
   \<and> accepted (model_validate SystemRequirements (RDict [(''libc'', RDict d)]))
       = accepted (model_validate LibcFamily (RDict d))
   \<and> accepted (model_validate SystemRequirements (RDict [(''linux'', RStr s)])) = (s \<noteq> [])
   \<and> accepted (model_validate SystemRequirements (RDict [(''unix'', RStr s)])) = (s \<noteq> [])
   \<and> accepted (model_validate SystemRequirements (RDict [(''libc'', RStr s)])) = (s \<noteq> [])
   \<and> accepted (model_validate SystemRequirements (RDict [(''cuda'', RStr s)])) = (s \<noteq> [])
   \<and> accepted (model_validate SystemRequirements (RDict [(''archspec'', RStr s)])) = (s \<noteq> [])
   \<and> accepted (model_validate SystemRequirements (RDict [(''macos'', RStr s)])) = (s \<noteq> [])"
proof -
  have f: "accepted (model_validate SystemRequirements (RDict [(''linux'', RFloat q)])) = (0 < q)"
    "accepted (model_validate SystemRequirements (RDict [(''macos'', RFloat q)])) = (0 < q)"
    by (simp_all add: sysreq_simps not_less)
  have g: "accepted (model_validate SystemRequirements (RDict [(''linux'', RStr s)])) = (s \<noteq> [])"
    "accepted (model_validate SystemRequirements (RDict [(''unix'', RStr s)])) = (s \<noteq> [])"
    "accepted (model_validate SystemRequirements (RDict [(''libc'', RStr s)])) = (s \<noteq> [])"
    "accepted (model_validate SystemRequirements (RDict [(''cuda'', RStr s)])) = (s \<noteq> [])"
    "accepted (model_validate SystemRequirements (RDict [(''archspec'', RStr s)])) = (s \<noteq> [])"
    "accepted (model_validate SystemRequirements (RDict [(''macos'', RStr s)])) = (s \<noteq> [])"
    by ((cases s; simp add: sysreq_simps str_as_float_def str_as_bool_def split_sign_def))+
  have h: "model_validate SystemRequirements (RDict []) =
     Inr (VModel ''SystemRequirements''
       [(''linux'', VNone), (''unix'', VNone), (''libc'', VNone), (''cuda'', VNone),
        (''archspec'', VNone), (''macos'', VNone)])"
    "accepted (model_validate SystemRequirements (RDict [(''libc'', RFloat q)]))"
    "accepted (model_validate SystemRequirements (RDict [(''cuda'', RFloat q)]))"
    "accepted (model_validate SystemRequirements (RDict [(''unix'', RBool b)]))"
    by (simp_all add: sysreq_simps)
  have t: "accepted (model_validate SystemRequirements (RDict [(''libc'', RDict d)]))
       = accepted (model_validate LibcFamily (RDict d))"
    by (simp add: sysreq_simps split: prod.splits)
  show ?thesis using f g h t by simp
qed

theorem system_requirements_fields_witness:
  "accepted (model_validate SystemRequirements (RDict [(''linux'', RFloat (51 / 10))]))
   \<and> accepted (model_validate SystemRequirements (RDict [(''macos'', RStr ''13.0'')]))
   \<and> \<not> accepted (model_validate SystemRequirements (RDict [(''macos'', RFloat (- 1))]))"
  using system_requirements_fields [of "51 / 10" True "[]" "''13.0''"]
    system_requirements_fields [of "- 1" True "[]" "''13.0''"]
  by simp

text \<open>
  The claim as stated fails at the float 0.0 for linux: neither member of the union
  takes it.
\<close>

theorem linux_zero_rejected:
  "model_validate SystemRequirements (RDict [(''linux'', RFloat 0)]) =
     Inl [([Key ''linux'', Tag ''constrained-float''], greater_than),
          ([Key ''linux'', Tag ''constrained-str''], string_type)]"
  by (simp add: sysreq_simps)

subsection \<open>URL fields\<close>





subsection \<open>Round trip: scalars\<close>

lemma roundtrips_I:
  "(\<And>m r v. validate m t r = Inr v \<Longrightarrow> validate m' t (serialize v) = Inr v) \<Longrightarrow> roundtrips m' t"
  by (simp add: roundtrips_def)


lemma validate_str_Inr:
  "validate_str mn pat r = Inr v \<Longrightarrow> \<exists>s. r = RStr s \<and> v = VStr s"
  by (auto simp: validate_str_def split: raw.splits if_splits)



lemma roundtrips_TFloat: "roundtrips m' (TFloat gt)"
  by (rule roundtrips_I)
     (auto simp: validate_float_def check_gt_def split: raw.splits if_splits option.splits)

lemma roundtrips_TBool: "roundtrips m' TBool"
  by (rule roundtrips_I)
     (auto simp: validate_bool_def split: raw.splits if_splits option.splits)




subsection \<open>Round trip: lists and dictionaries\<close>





subsection \<open>Round trip: classes\<close>






subsection \<open>Round trip: unions\<close>















subsection \<open>Round trip: the classes of the schema\<close>













































end
